theory Spec2Isabelle
  imports Complex_Main "HOL-Library.Char_ord" "HOL-Library.List_Lexorder" "HOL-Library.Multiset"
begin

section \<open>UrbanMart: the sales table\<close>

text \<open>
  One row of \<^verbatim>\<open>urbanmart_sales.csv\<close>, with the header columns the loaders read.
  A \<^verbatim>\<open>date\<close> is a calendar day, kept as the number of days since 1970-01-01 (the
  value pandas holds after \<^verbatim>\<open>pd.to_datetime\<close> on a \<^verbatim>\<open>YYYY-MM-DD\<close> cell, at day
  resolution). \<^verbatim>\<open>quantity\<close> is integral; prices and discounts are currency amounts,
  kept as exact rationals: finite arithmetic is exact here, and the rounding of binary
  floating point is outside this development. Text columns are strings.
\<close>

record row =
  transaction_id :: string
  bill_id :: string
  date :: int
  store_id :: string
  store_location :: string
  customer_id :: string
  customer_segment :: string
  product_id :: string
  product_category :: string
  product_name :: string
  quantity :: int
  unit_price :: rat
  payment_method :: string
  discount_applied :: rat
  channel :: string

text \<open>
  The outcome of a pandas float division. A finite quotient is exact; a zero divisor
  gives what numpy gives, without raising: \<^verbatim>\<open>nan\<close> for \<^verbatim>\<open>0/0\<close>, and an infinity
  with the sign of the dividend otherwise.
\<close>

datatype fval = Fin rat | PosInf | NegInf | NaN

definition fdiv :: "rat \<Rightarrow> rat \<Rightarrow> fval" where
  "fdiv a b =
     (if b \<noteq> 0 then Fin (a / b)
      else if 0 < a then PosInf
      else if a < 0 then NegInf
      else NaN)"

definition fscale :: "fval \<Rightarrow> rat \<Rightarrow> fval" where
  \<comment> \<open>multiplication by a positive finite constant (\<^verbatim>\<open>* 100\<close>)\<close>
  "fscale v c = (case v of Fin x \<Rightarrow> Fin (x * c) | PosInf \<Rightarrow> PosInf | NegInf \<Rightarrow> NegInf | NaN \<Rightarrow> NaN)"

definition round_half_even :: "rat \<Rightarrow> int" where
  "round_half_even x =
     (let f = \<lfloor>x\<rfloor>; d = x - of_int f
      in if d < 1 / 2 then f
         else if 1 / 2 < d then f + 1
         else if even f then f else f + 1)"

definition round2 :: "rat \<Rightarrow> rat" where
  \<comment> \<open>\<^verbatim>\<open>round(x, 2)\<close>: two decimals, ties to even\<close>
  "round2 x = of_int (round_half_even (x * 100)) / 100"

definition fround2 :: "fval \<Rightarrow> fval" where
  \<comment> \<open>\<^verbatim>\<open>.round(2)\<close> on a float column: non-finite entries stay as they are\<close>
  "fround2 v = (case v of Fin x \<Rightarrow> Fin (round2 x) | PosInf \<Rightarrow> PosInf | NegInf \<Rightarrow> NegInf | NaN \<Rightarrow> NaN)"

subsection \<open>Calendar\<close>

definition day_order :: "string list" where
  "day_order = [''Monday'', ''Tuesday'', ''Wednesday'', ''Thursday'', ''Friday'', ''Saturday'', ''Sunday'']"

definition day_name :: "int \<Rightarrow> string" where
  \<comment> \<open>\<^verbatim>\<open>.dt.day_name()\<close>: day 0 (1970-01-01) was a Thursday\<close>
  "day_name d = day_order ! nat ((d + 3) mod 7)"

subsection \<open>The derived table (Mini\_Project/app.py, \<^verbatim>\<open>load_data\<close>)\<close>

text \<open>
  \<^verbatim>\<open>load_data\<close> adds the calculated columns to every row. The columns that only
  rename the date (week, month, quarter, year and the period keys) take no part in
  what follows and are left out; \<^verbatim>\<open>day_of_week\<close> is kept.
\<close>

record drow = row +
  line_revenue :: rat
  gross_revenue :: rat
  total_discount :: rat
  cost :: rat
  profit :: rat
  profit_margin :: fval
  day_of_week :: string

definition derive :: "row \<Rightarrow> drow" where
  "derive r =
     (let lr = (of_int (quantity r) * unit_price r) - discount_applied r;
          gr = of_int (quantity r) * unit_price r;
          td = discount_applied r;
          c = of_int (quantity r) * unit_price r * (3 / 10);
          p = lr - c;
          pm = fround2 (fscale (fdiv p lr) 100)
      in row.extend r
           (drow.fields lr gr td c p pm (day_name (date r))))"

definition load_data :: "row list \<Rightarrow> drow list" where
  "load_data csv = map derive csv"

subsection \<open>Filters\<close>

text \<open>
  Mini\_Project/app.py, \<^verbatim>\<open>apply_filters\<close>. The chain of \<^verbatim>\<open>if/elif\<close> on the time
  period has no \<^verbatim>\<open>else\<close>: any other string leaves the dates unfiltered. A list
  argument is tested for truth (non-empty) before \<^verbatim>\<open>isin\<close> is applied.
\<close>

definition apply_filters ::
  "('a row_scheme) list \<Rightarrow> string \<Rightarrow> int \<Rightarrow> int \<Rightarrow> string list \<Rightarrow> string
     \<Rightarrow> string list \<Rightarrow> string list \<Rightarrow> string list \<Rightarrow> ('a row_scheme) list" where
  "apply_filters df date_segment custom_start custom_end stores channel_filter
       categories segments payment_methods =
     (let filtered_df = df;
          filtered_df =
            (if date_segment = ''Daily'' then
               filter (\<lambda>r. custom_start \<le> date r \<and> date r \<le> custom_end) filtered_df
             else if date_segment = ''Weekly'' then
               filter (\<lambda>r. custom_start \<le> date r \<and> date r \<le> custom_end) filtered_df
             else if date_segment = ''Monthly'' then
               filter (\<lambda>r. custom_start \<le> date r \<and> date r \<le> custom_end) filtered_df
             else if date_segment = ''Quarterly'' then
               filter (\<lambda>r. custom_start \<le> date r \<and> date r \<le> custom_end) filtered_df
             else if date_segment = ''Yearly'' then
               filter (\<lambda>r. custom_start \<le> date r \<and> date r \<le> custom_end) filtered_df
             else filtered_df);
          filtered_df =
            (if stores \<noteq> [] then filter (\<lambda>r. store_location r \<in> set stores) filtered_df
             else filtered_df);
          filtered_df =
            (if channel_filter \<noteq> ''All'' then filter (\<lambda>r. channel r = channel_filter) filtered_df
             else filtered_df);
          filtered_df =
            (if categories \<noteq> [] then filter (\<lambda>r. product_category r \<in> set categories) filtered_df
             else filtered_df);
          filtered_df =
            (if segments \<noteq> [] then filter (\<lambda>r. customer_segment r \<in> set segments) filtered_df
             else filtered_df);
          filtered_df =
            (if payment_methods \<noteq> [] then filter (\<lambda>r. payment_method r \<in> set payment_methods) filtered_df
             else filtered_df)
      in filtered_df)"

text \<open>
  urbanmart\_final\_project/app.py, \<^verbatim>\<open>filter_data\<close>. The category list is optional:
  \<^verbatim>\<open>None\<close> and the empty list are both false.
\<close>

definition truthy :: "string list option \<Rightarrow> bool" where
  "truthy sel = (case sel of None \<Rightarrow> False | Some xs \<Rightarrow> xs \<noteq> [])"

definition filter_data ::
  "('a row_scheme) list \<Rightarrow> int \<times> int \<Rightarrow> string list \<Rightarrow> string \<Rightarrow> string list option
     \<Rightarrow> ('a row_scheme) list" where
  "filter_data df date_range selected_locations selected_channel selected_categories =
     (let filtered = df;
          (start_date, end_date) = date_range;
          filtered = filter (\<lambda>r. start_date \<le> date r \<and> date r \<le> end_date) filtered;
          filtered =
            (if selected_locations \<noteq> [] then
               filter (\<lambda>r. store_location r \<in> set selected_locations) filtered
             else filtered);
          filtered =
            (if selected_channel \<noteq> ''All'' then filter (\<lambda>r. channel r = selected_channel) filtered
             else filtered);
          filtered =
            (if truthy selected_categories then
               filter (\<lambda>r. product_category r \<in> set (the selected_categories)) filtered
             else filtered)
      in filtered)"

text \<open>
  Neither filter validates its arguments or has a \<^verbatim>\<open>raise\<close> statement: every call
  returns a table. Written as a value of the result type of a fallible operation, the
  outcome of a call is therefore always on the right.
\<close>

datatype filter_error = InvalidRangeError

definition run_apply_filters ::
  "('a row_scheme) list \<Rightarrow> string \<Rightarrow> int \<Rightarrow> int \<Rightarrow> string list \<Rightarrow> string
     \<Rightarrow> string list \<Rightarrow> string list \<Rightarrow> string list \<Rightarrow> filter_error + ('a row_scheme) list" where
  "run_apply_filters df date_segment custom_start custom_end stores channel_filter
       categories segments payment_methods =
     Inr (apply_filters df date_segment custom_start custom_end stores channel_filter
            categories segments payment_methods)"

definition run_filter_data ::
  "('a row_scheme) list \<Rightarrow> int \<times> int \<Rightarrow> string list \<Rightarrow> string \<Rightarrow> string list option
     \<Rightarrow> filter_error + ('a row_scheme) list" where
  "run_filter_data df date_range selected_locations selected_channel selected_categories =
     Inr (filter_data df date_range selected_locations selected_channel selected_categories)"

text \<open>
  The filter as the specification words it: a row passes when its date lies in the
  inclusive range and, for every categorical dimension whose restriction set is not
  empty, its value is a member of the set. The channel is restricted to one value
  unless it is the sentinel \<^verbatim>\<open>All\<close>.
\<close>

definition granularities :: "string list" where
  "granularities = [''Daily'', ''Weekly'', ''Monthly'', ''Quarterly'', ''Yearly'']"

definition row_passes ::
  "int \<Rightarrow> int \<Rightarrow> string list \<Rightarrow> string \<Rightarrow> string list \<Rightarrow> string list \<Rightarrow> string list
     \<Rightarrow> 'a row_scheme \<Rightarrow> bool" where
  "row_passes date_from date_to stores chan categories segments payment_methods r \<longleftrightarrow>
     date_from \<le> date r \<and> date r \<le> date_to
     \<and> (stores \<noteq> [] \<longrightarrow> store_location r \<in> set stores)
     \<and> (chan \<noteq> ''All'' \<longrightarrow> channel r = chan)
     \<and> (categories \<noteq> [] \<longrightarrow> product_category r \<in> set categories)
     \<and> (segments \<noteq> [] \<longrightarrow> customer_segment r \<in> set segments)
     \<and> (payment_methods \<noteq> [] \<longrightarrow> payment_method r \<in> set payment_methods)"

definition opt_list :: "string list option \<Rightarrow> string list" where
  "opt_list sel = (case sel of None \<Rightarrow> [] | Some xs \<Rightarrow> xs)"

subsection \<open>Grouped rollups\<close>

text \<open>
  \<^verbatim>\<open>df.groupby(key)[col].sum()\<close>: one entry per distinct key, keys in sorted order,
  each with the sum of the column over the rows of its group.
\<close>

definition group_keys :: "('r \<Rightarrow> 'k::linorder) \<Rightarrow> 'r list \<Rightarrow> 'k list" where
  "group_keys key df = sort (remdups (map key df))"

definition groupby_sum :: "('r \<Rightarrow> 'k::linorder) \<Rightarrow> ('r \<Rightarrow> rat) \<Rightarrow> 'r list \<Rightarrow> ('k \<times> rat) list" where
  "groupby_sum key col df =
     map (\<lambda>k. (k, sum_list (map col (filter (\<lambda>r. key r = k) df)))) (group_keys key df)"

definition nunique :: "'a list \<Rightarrow> nat" where
  "nunique xs = length (remdups xs)"

text \<open>
  Mini\_Project/app.py, \<^verbatim>\<open>day_sales\<close>: revenue and distinct transactions per day
  name, then \<^verbatim>\<open>reindex(day_order)\<close>: one output row per label of \<^verbatim>\<open>day_order\<close>, in
  that order, holding the group's values, or nothing (pandas writes NaN) when the
  view has no row on that day.
\<close>

definition day_groups :: "drow list \<Rightarrow> (string \<times> rat \<times> nat) list" where
  "day_groups df =
     map (\<lambda>k. let g = filter (\<lambda>r. day_of_week r = k) df
              in (k, sum_list (map line_revenue g), nunique (map transaction_id g)))
       (group_keys day_of_week df)"

definition reindex :: "'k list \<Rightarrow> ('k \<times> 'v) list \<Rightarrow> ('k \<times> 'v option) list" where
  "reindex labels tbl = map (\<lambda>l. (l, map_of tbl l)) labels"

definition day_sales :: "drow list \<Rightarrow> (string \<times> (rat \<times> nat) option) list" where
  "day_sales df_filtered = reindex day_order (day_groups df_filtered)"

subsection \<open>The console KPIs and the table they are given\<close>

text \<open>
  The console scripts work on the table as read from the file, which may or may not
  hold a \<^verbatim>\<open>line_revenue\<close> column yet. A KPI function is modelled with the caller's
  table as state: it returns its result together with the caller's table as it is
  after the call.
\<close>

record frame =
  frame_rows :: "row list"
  line_revenue_col :: "rat list option"

definition revenue_column :: "frame \<Rightarrow> rat list" where
  \<comment> \<open>\<^verbatim>\<open>(df['quantity'] * df['unit_price']) - df['discount_applied']\<close>\<close>
  "revenue_column df =
     map (\<lambda>r. (of_int (quantity r) * unit_price r) - discount_applied r) (frame_rows df)"

text \<open>
  Mini\_Project/urbanmart\_analysis.py: the column is assigned on the argument itself.
\<close>

definition compute_total_revenue_mp :: "frame \<Rightarrow> rat \<times> frame" where
  "compute_total_revenue_mp df =
     (let col = revenue_column df;
          df = df\<lparr>line_revenue_col := Some col\<rparr>;
          total_revenue = sum_list col
      in (round2 total_revenue, df))"

definition compute_revenue_by_store_mp :: "frame \<Rightarrow> (string \<times> rat) list \<times> frame" where
  "compute_revenue_by_store_mp df =
     (let col = revenue_column df;
          df = df\<lparr>line_revenue_col := Some col\<rparr>;
          revenue_by_store = groupby_sum (\<lambda>p. store_location (fst p)) snd (zip (frame_rows df) col)
      in (map (\<lambda>(k, v). (k, round2 v)) revenue_by_store, df))"

text \<open>
  urbanmart\_final\_project/urbanmart\_analysis.py: \<^verbatim>\<open>add_line_revenue_column\<close> works on
  \<^verbatim>\<open>df.copy()\<close> and the KPI functions rebind their local name to that copy.
\<close>

definition add_line_revenue_column :: "frame \<Rightarrow> frame" where
  "add_line_revenue_column df = df\<lparr>line_revenue_col := Some (revenue_column df)\<rparr>"

definition compute_total_revenue_fp :: "frame \<Rightarrow> rat \<times> frame" where
  "compute_total_revenue_fp df =
     (let local = (if line_revenue_col df = None then add_line_revenue_column df else df);
          total = sum_list (case line_revenue_col local of None \<Rightarrow> [] | Some col \<Rightarrow> col)
      in (total, df))"

definition compute_revenue_by_store_fp :: "frame \<Rightarrow> (string \<times> rat) list \<times> frame" where
  "compute_revenue_by_store_fp df =
     (let local = (if line_revenue_col df = None then add_line_revenue_column df else df);
          col = (case line_revenue_col local of None \<Rightarrow> [] | Some col \<Rightarrow> col);
          revenue_series = groupby_sum (\<lambda>p. store_id (fst p)) snd (zip (frame_rows local) col)
      in (revenue_series, df))"

subsection \<open>Sample rows\<close>

definition sample_row :: "int \<Rightarrow> string \<Rightarrow> string \<Rightarrow> int \<Rightarrow> rat \<Rightarrow> rat \<Rightarrow> row" where
  "sample_row d store chan q p disc =
     \<lparr> transaction_id = ''T1'', bill_id = ''B1'', date = d, store_id = ''S1'',
       store_location = store, customer_id = ''C1'', customer_segment = ''Regular'',
       product_id = ''P101'', product_category = ''Beverages'', product_name = ''Green Tea'',
       quantity = q, unit_price = p, payment_method = ''Cash'', discount_applied = disc,
       channel = chan \<rparr>"

definition row_a :: row where
  "row_a = sample_row 0 ''A'' ''Online'' 2 10 0"

definition row_b :: row where
  "row_b = sample_row 1 ''A'' ''In-store'' 1 5 1"

definition row_c :: row where
  "row_c = sample_row 4 ''B'' ''Online'' 3 2 0"

definition zero_revenue_row :: row where
  "zero_revenue_row = sample_row 0 ''A'' ''Online'' 1 0 0"

section \<open>Properties\<close>

subsection \<open>The filters as one predicate\<close>

lemma apply_filters_conv:
  "apply_filters df date_segment a b stores chan categories segments payment_methods =
     filter (\<lambda>r. (date_segment \<in> set granularities \<longrightarrow> a \<le> date r \<and> date r \<le> b)
                \<and> (stores \<noteq> [] \<longrightarrow> store_location r \<in> set stores)
                \<and> (chan \<noteq> ''All'' \<longrightarrow> channel r = chan)
                \<and> (categories \<noteq> [] \<longrightarrow> product_category r \<in> set categories)
                \<and> (segments \<noteq> [] \<longrightarrow> customer_segment r \<in> set segments)
                \<and> (payment_methods \<noteq> [] \<longrightarrow> payment_method r \<in> set payment_methods)) df"
proof -
  let ?D = "\<lambda>r::'a row_scheme. a \<le> date r \<and> date r \<le> b"
  have stage: "(if date_segment = ''Daily'' then filter ?D df
        else if date_segment = ''Weekly'' then filter ?D df
        else if date_segment = ''Monthly'' then filter ?D df
        else if date_segment = ''Quarterly'' then filter ?D df
        else if date_segment = ''Yearly'' then filter ?D df
        else df) = filter (\<lambda>r. date_segment \<in> set granularities \<longrightarrow> ?D r) df"
    by (simp add: granularities_def)
  show ?thesis
    unfolding apply_filters_def Let_def stage
    by (auto intro!: filter_cong)
qed

lemma filter_data_conv:
  "filter_data df (a, b) locs chan cats =
     filter (\<lambda>r. (a \<le> date r \<and> date r \<le> b)
                \<and> (locs \<noteq> [] \<longrightarrow> store_location r \<in> set locs)
                \<and> (chan \<noteq> ''All'' \<longrightarrow> channel r = chan)
                \<and> (opt_list cats \<noteq> [] \<longrightarrow> product_category r \<in> set (opt_list cats))) df"
proof -
  have c: "truthy cats \<longleftrightarrow> opt_list cats \<noteq> []"
    by (simp add: truthy_def opt_list_def split: option.splits)
  have t: "truthy cats \<Longrightarrow> the cats = opt_list cats"
    by (auto simp add: truthy_def opt_list_def split: option.splits)
  have last: "\<And>xs. (if truthy cats
                 then filter (\<lambda>r::'a row_scheme. product_category r \<in> set (the cats)) xs
                 else xs)
     = filter (\<lambda>r. opt_list cats \<noteq> [] \<longrightarrow> product_category r \<in> set (opt_list cats)) xs"
    using c t by auto
  show ?thesis
    unfolding filter_data_def Let_def prod.case last
    by (auto intro!: filter_cong)
qed


subsection \<open>What the filters return\<close>

text \<open>
  C1. For each of the five time periods, \<^verbatim>\<open>apply_filters\<close> returns exactly the rows
  (in table order) whose date lies in the inclusive range and whose value, in every
  categorical dimension with a non-empty restriction, belongs to the restriction; the
  right-hand side does not mention the time period, so the period never changes which
  rows pass. \<^verbatim>\<open>filter_data\<close> of the final project does the same over its three
  dimensions.
\<close>

theorem filter_exact:
  "date_segment \<in> set granularities \<Longrightarrow>
     apply_filters df date_segment date_from date_to stores chan categories segments payment_methods
       = filter (row_passes date_from date_to stores chan categories segments payment_methods) df
     \<and> filter_data df (date_from, date_to) stores chan sel
       = filter (row_passes date_from date_to stores chan (opt_list sel) [] []) df"
  by (simp add: apply_filters_conv filter_data_conv row_passes_def cong: filter_cong)

theorem filter_exact_witness:
  "''Weekly'' \<in> set granularities
   \<and> apply_filters [row_a, row_b, row_c] ''Weekly'' 0 3 [''A''] ''Online'' [] [] [] = [row_a]
   \<and> filter_data [row_a, row_b, row_c] (1, 4) [] ''All'' (Some [''Beverages'']) = [row_b, row_c]"
proof -
  have g: "''Weekly'' \<in> set granularities"
    by (simp add: granularities_def)
  have p: "filter (row_passes 0 3 [''A''] ''Online'' [] [] []) [row_a, row_b, row_c] = [row_a]"
    by (simp add: row_passes_def row_a_def row_b_def row_c_def sample_row_def)
  have q: "filter (row_passes 1 4 [] ''All'' (opt_list (Some [''Beverages''])) [] [])
             [row_a, row_b, row_c] = [row_b, row_c]"
    by (simp add: row_passes_def row_a_def row_b_def row_c_def sample_row_def opt_list_def)
  show ?thesis
    using g p q
      filter_exact [OF g, of "[row_a, row_b, row_c]" 0 3 "[''A'']" "''Online''" "[]" "[]" "[]"]
      filter_exact [OF g, of "[row_a, row_b, row_c]" 1 4 "[]" "''All''" "[]" "[]" "[]"
                      "Some [''Beverages'']"]
    by simp
qed

text \<open>
  C3, as stated: a range with \<^verbatim>\<open>date_from > date_to\<close> makes the filter fail with
  \<^verbatim>\<open>InvalidRangeError\<close>. On the three sample rows with the range from day 5 to day 3
  both filters return the empty table instead.
\<close>

theorem invalid_range_counterexample:
  "(3::int) < 5
   \<and> run_apply_filters [row_a, row_b, row_c] ''Daily'' 5 3 [] ''All'' [] [] [] = Inr []
   \<and> run_apply_filters [row_a, row_b, row_c] ''Daily'' 5 3 [] ''All'' [] [] [] \<noteq> Inl InvalidRangeError
   \<and> run_filter_data [row_a, row_b, row_c] (5, 3) [] ''All'' None = Inr []
   \<and> run_filter_data [row_a, row_b, row_c] (5, 3) [] ''All'' None \<noteq> Inl InvalidRangeError"
  by (simp add: run_apply_filters_def run_filter_data_def apply_filters_def filter_data_def
        truthy_def row_a_def row_b_def row_c_def sample_row_def)

text \<open>
  C3, amended: for every table and every criteria with \<^verbatim>\<open>date_from > date_to\<close> (and
  one of the five time periods), the filter returns the empty table and raises
  nothing.
\<close>

theorem inverted_range_empty:
  "date_to < date_from \<Longrightarrow> date_segment \<in> set granularities \<Longrightarrow>
     run_apply_filters df date_segment date_from date_to stores chan categories segments payment_methods
       = Inr []
     \<and> run_filter_data df (date_from, date_to) stores chan sel = Inr []"
  by (simp add: run_apply_filters_def run_filter_data_def apply_filters_conv filter_data_conv
        filter_empty_conv)

theorem inverted_range_empty_witness:
  "(3::int) < 5 \<and> ''Yearly'' \<in> set granularities
   \<and> run_apply_filters [row_a, row_b, row_c] ''Yearly'' 5 3 [''A''] ''Online'' [] [] [] = Inr []
   \<and> run_filter_data [row_a, row_b, row_c] (5, 3) [''A''] ''Online'' (Some [''Snacks'']) = Inr []"
proof -
  have h: "(3::int) < 5"
    by simp
  have g: "''Yearly'' \<in> set granularities"
    by (simp add: granularities_def)
  show ?thesis
    using h g
      inverted_range_empty [OF h g, of "[row_a, row_b, row_c]" "[''A'']" "''Online''" "[]" "[]" "[]"
                              "Some [''Snacks'']"]
    by simp
qed

text \<open>
  C4. With every restriction list empty (or the optional list absent), the channel set
  to the sentinel \<^verbatim>\<open>All\<close>, and a date range that covers the date of every row, both
  filters return the table as it is: an empty restriction passes every row.
\<close>

theorem empty_restrictions_noop:
  "\<forall>r\<in>set df. date_from \<le> date r \<and> date r \<le> date_to \<Longrightarrow>
     apply_filters df date_segment date_from date_to [] ''All'' [] [] [] = df
     \<and> filter_data df (date_from, date_to) [] ''All'' None = df
     \<and> filter_data df (date_from, date_to) [] ''All'' (Some []) = df"
  by (simp add: apply_filters_conv filter_data_conv opt_list_def)

theorem empty_restrictions_noop_witness:
  "0 \<le> date row_a \<and> date row_a \<le> 4 \<and> 0 \<le> date row_b \<and> date row_b \<le> 4
   \<and> 0 \<le> date row_c \<and> date row_c \<le> 4
   \<and> apply_filters [row_a, row_b, row_c] ''Monthly'' 0 4 [] ''All'' [] [] [] = [row_a, row_b, row_c]
   \<and> filter_data [row_a, row_b, row_c] (0, 4) [] ''All'' None = [row_a, row_b, row_c]"
proof -
  have h: "\<forall>r\<in>set [row_a, row_b, row_c]. 0 \<le> date r \<and> date r \<le> 4"
    by (simp add: row_a_def row_b_def row_c_def sample_row_def)
  show ?thesis
    using h empty_restrictions_noop [OF h, of "''Monthly''"] by simp
qed

text \<open>
  C10. Filtering is idempotent: applying either filter to its own output, with the
  same criteria, gives the output again.
\<close>

theorem filter_idempotent:
  "apply_filters
       (apply_filters df date_segment date_from date_to stores chan categories segments payment_methods)
       date_segment date_from date_to stores chan categories segments payment_methods
     = apply_filters df date_segment date_from date_to stores chan categories segments payment_methods
   \<and> filter_data (filter_data df date_range stores chan sel) date_range stores chan sel
     = filter_data df date_range stores chan sel"
proof (cases date_range)
  case (Pair a b)
  show ?thesis
    unfolding Pair apply_filters_conv filter_data_conv
    by (simp cong: filter_cong)
qed

theorem filter_idempotent_witness:
  "apply_filters (apply_filters [row_a, row_b, row_c] ''Daily'' 0 3 [''A''] ''All'' [] [] [])
      ''Daily'' 0 3 [''A''] ''All'' [] [] [] = [row_a, row_b]
   \<and> apply_filters [row_a, row_b, row_c] ''Daily'' 0 3 [''A''] ''All'' [] [] [] = [row_a, row_b]"
proof -
  have e: "apply_filters [row_a, row_b, row_c] ''Daily'' 0 3 [''A''] ''All'' [] [] [] = [row_a, row_b]"
    by (simp add: apply_filters_def row_a_def row_b_def row_c_def sample_row_def)
  show ?thesis
    using e
      filter_idempotent [of "[row_a, row_b, row_c]" "''Daily''" 0 3 "[''A'']" "''All''" "[]" "[]" "[]"]
    by simp
qed

subsection \<open>Derived metrics\<close>

lemma derive_simps:
  "line_revenue (derive r) = of_int (quantity r) * unit_price r - discount_applied r"
  "gross_revenue (derive r) = of_int (quantity r) * unit_price r"
  "total_discount (derive r) = discount_applied r"
  "cost (derive r) = of_int (quantity r) * unit_price r * (3 / 10)"
  "profit (derive r) = of_int (quantity r) * unit_price r - discount_applied r
                         - of_int (quantity r) * unit_price r * (3 / 10)"
  "profit_margin (derive r) =
     fround2 (fscale (fdiv (of_int (quantity r) * unit_price r - discount_applied r
                         - of_int (quantity r) * unit_price r * (3 / 10))
                (of_int (quantity r) * unit_price r - discount_applied r)) 100)"
  "day_of_week (derive r) = day_name (date r)"
  "quantity (derive r) = quantity r"
  "unit_price (derive r) = unit_price r"
  "discount_applied (derive r) = discount_applied r"
  "date (derive r) = date r"
  "store_location (derive r) = store_location r"
  "transaction_id (derive r) = transaction_id r"
  by (simp_all add: derive_def Let_def row.defs drow.defs)

text \<open>
  C2. The specification asks for a margin of 0 on a row whose net revenue is 0. On the row
  with quantity 1, price 0 and no discount, \<^verbatim>\<open>load_data\<close> divides 0 by 0 and stores
  NaN; no guard replaces it.
\<close>

theorem zero_revenue_margin_nan:
  "line_revenue (derive zero_revenue_row) = 0
   \<and> profit_margin (derive zero_revenue_row) = NaN
   \<and> profit_margin (derive zero_revenue_row) \<noteq> Fin 0"
  by (simp add: derive_simps zero_revenue_row_def sample_row_def fdiv_def fscale_def fround2_def)

text \<open>The same on every row whose net revenue is 0: the stored margin is never finite.\<close>

lemma zero_revenue_margin_never_finite:
  "line_revenue (derive r) = 0 \<Longrightarrow> profit_margin (derive r) \<in> {PosInf, NegInf, NaN}"
  by (simp add: derive_simps fdiv_def fscale_def fround2_def)






subsection \<open>Grouped rollups\<close>


lemma group_keys_props:
  "distinct (group_keys key df)" "set (group_keys key df) = key ` set df"
  by (simp_all add: group_keys_def)





lemma day_groups_lookup:
  "map_of (day_groups df) d =
     (if d \<in> day_of_week ` set df
      then Some (sum_list (map line_revenue (filter (\<lambda>r. day_of_week r = d) df)),
                 nunique (map transaction_id (filter (\<lambda>r. day_of_week r = d) df)))
      else None)"
proof -
  let ?v = "\<lambda>k. (sum_list (map line_revenue (filter (\<lambda>r. day_of_week r = k) df)),
                 nunique (map transaction_id (filter (\<lambda>r. day_of_week r = k) df)))"
  have "day_groups df = map (\<lambda>k. (k, ?v k)) (group_keys day_of_week df)"
    by (simp add: day_groups_def Let_def)
  then have "map_of (day_groups df) d
               = (if d \<in> set (group_keys day_of_week df) then Some (?v d) else None)"
    by (simp add: map_of_map_restrict restrict_map_def)
  then show ?thesis by (simp add: group_keys_props)
qed

text \<open>
  Each output row of \<^verbatim>\<open>day_sales\<close> holds the revenue and the number of distinct
  transactions of its day, or nothing when the view has no row on that day.
\<close>

lemma day_sales_entries:
  "day_sales df =
     map (\<lambda>d. (d, if d \<in> day_of_week ` set df
                  then Some (sum_list (map line_revenue (filter (\<lambda>r. day_of_week r = d) df)),
                             nunique (map transaction_id (filter (\<lambda>r. day_of_week r = d) df)))
                  else None)) day_order"
  by (simp add: day_sales_def reindex_def day_groups_lookup)

lemma day_groups_alphabetical:
  "sorted (map fst (day_groups df))"
  by (simp add: day_groups_def group_keys_def Let_def comp_def)

lemma day_sales_sample:
  "day_sales (load_data [row_c, row_b, row_a]) =
     [(''Monday'', Some (6, 1)), (''Tuesday'', None), (''Wednesday'', None),
      (''Thursday'', Some (20, 1)), (''Friday'', Some (4, 1)), (''Saturday'', None),
      (''Sunday'', None)]"
  by (simp add: day_sales_entries day_order_def load_data_def derive_simps day_name_def
        nunique_def row_a_def row_b_def row_c_def sample_row_def)


subsection \<open>The console KPIs and the caller's table\<close>

text \<open>
  C9. The specification asks that no KPI changes the table it is given. On the three sample
  rows, read without a \<^verbatim>\<open>line_revenue\<close> column, \<^verbatim>\<open>compute_total_revenue\<close> of
  Mini\_Project/urbanmart\_analysis.py returns 30 and leaves the caller's table with a
  new column.
\<close>

theorem compute_total_revenue_mutates_table:
  "compute_total_revenue_mp \<lparr>frame_rows = [row_a, row_b, row_c], line_revenue_col = None\<rparr>
     = (30, \<lparr>frame_rows = [row_a, row_b, row_c], line_revenue_col = Some [20, 4, 6]\<rparr>)
   \<and> snd (compute_total_revenue_mp \<lparr>frame_rows = [row_a, row_b, row_c], line_revenue_col = None\<rparr>)
     \<noteq> \<lparr>frame_rows = [row_a, row_b, row_c], line_revenue_col = None\<rparr>"
  by (simp add: compute_total_revenue_mp_def revenue_column_def round2_def round_half_even_def
        Let_def row_a_def row_b_def row_c_def sample_row_def)

text \<open>
  The same for every table read without the column, and for the revenue by store. The
  functions of the final project, which work on a copy, leave the table as it was.
\<close>

lemma mini_project_kpis_change_table:
  assumes "line_revenue_col df = None"
  shows "snd (compute_total_revenue_mp df) \<noteq> df"
    and "snd (compute_revenue_by_store_mp df) \<noteq> df"
  using assms
  by (cases df; simp add: compute_total_revenue_mp_def compute_revenue_by_store_mp_def Let_def)+

lemma final_project_kpis_keep_table:
  "snd (compute_total_revenue_fp df) = df" "snd (compute_revenue_by_store_fp df) = df"
  by (simp_all add: compute_total_revenue_fp_def compute_revenue_by_store_fp_def Let_def)

lemma compute_total_revenue_fp_sample:
  "compute_total_revenue_fp \<lparr>frame_rows = [row_a, row_b, row_c], line_revenue_col = None\<rparr>
     = (30, \<lparr>frame_rows = [row_a, row_b, row_c], line_revenue_col = None\<rparr>)"
  by (simp add: compute_total_revenue_fp_def add_line_revenue_column_def revenue_column_def
        Let_def row_a_def row_b_def row_c_def sample_row_def)

end
